theory Spec2Isabelle
  imports Main "HOL-Library.Sublist"
begin

section \<open>The container build engine of DockGen AI\<close>

text \<open>
  This theory embeds the class \<^verbatim>\<open>ContainerBuildEngine\<close> of the Docker service
  (its compiled form is dist/services/DockerService.js): \<^verbatim>\<open>buildImage\<close>,
  \<^verbatim>\<open>createFallbackBuild\<close> and the private helpers they call. Line numbers are those of
  the TypeScript source file.
  The file system and the external \<^verbatim>\<open>docker\<close> tool are explicit: a \<open>world\<close> holds the
  directories and files on disk together with the trace of the calls made so far, and an
  \<open>env\<close> holds what the outside answers during one invocation (the uuid drawn, the
  validator's verdict, the outcome of each command). A rejected promise or a \<^verbatim>\<open>throw\<close> is
  the value \<open>Inl msg\<close>, where \<open>msg\<close> is the \<^verbatim>\<open>message\<close> of the \<^verbatim>\<open>Error\<close>. Console logging
  has no effect on the result and is left out.
\<close>

subsection \<open>JavaScript strings\<close>

text \<open>
  Strings are lists of 8-bit characters. \<^verbatim>\<open>String.prototype.includes\<close> is substring
  search, \<^verbatim>\<open>trim\<close> strips white space at both ends (the ASCII white space characters;
  the tool's output is ASCII), and a string is truthy when it is not empty.
\<close>

fun js_includes :: "string \<Rightarrow> string \<Rightarrow> bool" where
  "js_includes [] t = (t = [])"
| "js_includes (c # cs) t = (prefix t (c # cs) \<or> js_includes cs t)"

definition js_whitespace :: "char \<Rightarrow> bool" where
  "js_whitespace c = (c \<in> set [CHR 0x09, CHR 0x0A, CHR 0x0B, CHR 0x0C, CHR 0x0D, CHR 0x20])"

definition trim :: "string \<Rightarrow> string" where
  "trim s = rev (dropWhile js_whitespace (rev (dropWhile js_whitespace s)))"

definition joinLines :: "string list \<Rightarrow> string" where
  "joinLines ls = (case ls of [] \<Rightarrow> [] | l # rest \<Rightarrow> l @ concat (map (\<lambda>x. CHR 0x0A # x) rest))"

subsection \<open>Paths\<close>

text \<open>
  An absolute path is the list of its segments below the root. \<^verbatim>\<open>path.join(base, rel)\<close>
  appends \<^verbatim>\<open>rel\<close> to \<^verbatim>\<open>base\<close> and normalises: empty segments and \<^verbatim>\<open>.\<close> are dropped,
  \<^verbatim>\<open>..\<close> removes the segment before it (and stays at the root).
\<close>

type_synonym path = "string list"

fun splitSlash :: "string \<Rightarrow> string list" where
  "splitSlash [] = [[]]"
| "splitSlash (c # cs) =
     (if c = CHR ''/'' then [] # splitSlash cs
      else (case splitSlash cs of [] \<Rightarrow> [[c]] | seg # segs \<Rightarrow> (c # seg) # segs))"

definition path_step :: "path \<Rightarrow> string \<Rightarrow> path" where
  "path_step p seg =
     (if seg = [] \<or> seg = ''.'' then p
      else if seg = ''..'' then butlast p
      else p @ [seg])"

definition path_join :: "path \<Rightarrow> string \<Rightarrow> path" where
  "path_join base rel = foldl path_step base (splitSlash rel)"

definition path_str :: "path \<Rightarrow> string" where
  "path_str p = (if p = [] then ''/'' else concat (map (\<lambda>seg. CHR ''/'' # seg) p))"

subsection \<open>The world: file system and call trace\<close>

datatype event =
    EvMkdir path
  | EvWriteFile path string
  | EvRm path
  | EvExec string "path option"

text \<open>
  The causes for which the creation of a directory is refused, with the text Node gives
  them. \<^verbatim>\<open>EACCES\<close> and \<^verbatim>\<open>ENOSPC\<close> depend on permissions and free space, which the world
  records as \<open>mkdirFault\<close>: the fault, if any, with which the disk answers a request to
  create the directory of that path.
\<close>

datatype errno = EACCES | ENOSPC | ENOTDIR | EEXIST

fun errnoText :: "errno \<Rightarrow> string" where
  "errnoText EACCES = ''EACCES: permission denied''"
| "errnoText ENOSPC = ''ENOSPC: no space left on device''"
| "errnoText ENOTDIR = ''ENOTDIR: not a directory''"
| "errnoText EEXIST = ''EEXIST: file already exists''"

record world =
  dirs :: "path set"
  files :: "path \<rightharpoonup> string"
  mkdirFault :: "path \<Rightarrow> errno option"
  trace :: "event list"

type_synonym 'a io = "world \<Rightarrow> (string + 'a) \<times> world"

definition ret :: "'a \<Rightarrow> 'a io" where
  "ret a w = (Inr a, w)"

definition throw :: "string \<Rightarrow> 'a io" where
  "throw msg w = (Inl msg, w)"

definition bind :: "'a io \<Rightarrow> ('a \<Rightarrow> 'b io) \<Rightarrow> 'b io" where
  "bind m f w = (case m w of (Inl msg, w') \<Rightarrow> (Inl msg, w') | (Inr a, w') \<Rightarrow> f a w')"

definition log_event :: "event \<Rightarrow> world \<Rightarrow> world" where
  "log_event e w = w\<lparr>trace := trace w @ [e]\<rparr>"

definition isDir :: "world \<Rightarrow> path \<Rightarrow> bool" where
  "isDir w p = (p = [] \<or> p \<in> dirs w)"

text \<open>
  \<^verbatim>\<open>fs.promises.mkdir(p, { recursive: true })\<close>: creates \<open>p\<close> and every missing ancestor.
  It rejects, and creates nothing, when the disk refuses (\<open>mkdirFault\<close>), when \<open>p\<close> is
  a regular file (\<^verbatim>\<open>EEXIST\<close>) and when an ancestor of \<open>p\<close> is one (\<^verbatim>\<open>ENOTDIR\<close>).
\<close>

definition mkdirError :: "errno \<Rightarrow> path \<Rightarrow> string" where
  "mkdirError code p = errnoText code @ '', mkdir '' @ [CHR 0x27] @ path_str p @ [CHR 0x27]"

definition fs_mkdir :: "path \<Rightarrow> unit io" where
  "fs_mkdir p w =
     (case mkdirFault w p of
        Some code \<Rightarrow> (Inl (mkdirError code p), log_event (EvMkdir p) w)
      | None \<Rightarrow>
          if files w p \<noteq> None then (Inl (mkdirError EEXIST p), log_event (EvMkdir p) w)
          else if list_ex (\<lambda>q. files w q \<noteq> None) (prefixes p)
          then (Inl (mkdirError ENOTDIR p), log_event (EvMkdir p) w)
          else (Inr (), (log_event (EvMkdir p) w)\<lparr>dirs := dirs w \<union> set (prefixes p)\<rparr>))"

text \<open>
  \<^verbatim>\<open>fs.promises.writeFile(p, content)\<close>: rejects with \<^verbatim>\<open>ENOENT\<close> when the directory that is
  to hold the file does not exist, and creates or replaces the file otherwise.
\<close>

definition enoent :: "path \<Rightarrow> string" where
  "enoent p = ''ENOENT: no such file or directory, open '' @ [CHR 0x27] @ path_str p @ [CHR 0x27]"

definition fs_writeFile :: "path \<Rightarrow> string \<Rightarrow> unit io" where
  "fs_writeFile p content w =
     (if isDir w (butlast p)
      then (Inr (), (log_event (EvWriteFile p content) w)\<lparr>files := (files w)(p \<mapsto> content)\<rparr>)
      else (Inl (enoent p), log_event (EvWriteFile p content) w))"

text \<open>\<^verbatim>\<open>fs.promises.rm(p, { recursive: true, force: true })\<close>: removes \<open>p\<close> and all below it.\<close>

definition fs_rm :: "path \<Rightarrow> unit io" where
  "fs_rm p w =
     (Inr (), (log_event (EvRm p) w)
        \<lparr>dirs := {d \<in> dirs w. \<not> prefix p d},
         files := (\<lambda>q. if prefix p q then None else files w q)\<rparr>)"

text \<open>\<^verbatim>\<open>fileExists\<close>: \<^verbatim>\<open>fs.promises.access\<close> succeeds on a file and on a directory.\<close>

definition fileExists :: "path \<Rightarrow> world \<Rightarrow> bool" where
  "fileExists p w = (isDir w p \<or> files w p \<noteq> None)"

text \<open>\<^verbatim>\<open>cleanupBuildDir\<close>: the removal, with every error swallowed.\<close>

definition cleanupBuildDir :: "path \<Rightarrow> unit io" where
  "cleanupBuildDir buildWorkspace w =
     (case fs_rm buildWorkspace w of (Inl msg, w') \<Rightarrow> (Inr (), w') | (Inr u, w') \<Rightarrow> (Inr (), w'))"

subsection \<open>What the outside answers\<close>

text \<open>
  \<^verbatim>\<open>execAsync(cmd, { cwd, timeout })\<close> resolves with the two output streams, or rejects
  when the command exits with a non-zero status or is killed at the timeout; in both cases
  Node's message is \<^verbatim>\<open>Command failed: <cmd>\n<stderr>\<close>.
\<close>

datatype exec_result =
    Resolved string string
  | ExitFailure string
  | TimedOut string

record ValidationResult =
  isValid :: bool
  errors :: "string list"
  warnings :: "string list"
  suggestions :: "string list"

datatype json =
    JNull
  | JBool bool
  | JNum int
  | JStr string
  | JArr "json list"
  | JObj "(string \<times> json) list"

fun truthy :: "json \<Rightarrow> bool" where
  "truthy JNull = False"
| "truthy (JBool b) = b"
| "truthy (JNum n) = (n \<noteq> 0)"
| "truthy (JStr s) = (s \<noteq> [])"
| "truthy (JArr xs) = True"
| "truthy (JObj kvs) = True"

text \<open>
  The repository data is \<^verbatim>\<open>any\<close>; only its \<^verbatim>\<open>packageJson\<close> property is read
  (\<open>None\<close>: the property is missing).
\<close>

record RepositoryData =
  packageJson :: "json option"

text \<open>
  \<open>cwd\<close> is \<^verbatim>\<open>process.cwd()\<close>, \<open>uuidv4\<close> the identifier drawn by this invocation,
  \<open>validateDockerfile\<close> the validation service (not part of this file: a parameter,
  which returns a verdict for every text),
  \<open>execAsync\<close> the outcome of a command run in a working directory, and
  \<open>stringify\<close> is \<^verbatim>\<open>JSON.stringify(_, null, 2)\<close>.
\<close>

record env =
  cwd :: path
  uuidv4 :: string
  validateDockerfile :: "string \<Rightarrow> ValidationResult"
  execAsync :: "string \<Rightarrow> path option \<Rightarrow> exec_result"
  stringify :: "json \<Rightarrow> string"

definition commandFailed :: "string \<Rightarrow> string \<Rightarrow> string" where
  "commandFailed cmd stderr = ''Command failed: '' @ cmd @ [CHR 0x0A] @ stderr"

definition exec :: "env \<Rightarrow> string \<Rightarrow> path option \<Rightarrow> (string \<times> string) io" where
  "exec e cmd dir w =
     (case execAsync e cmd dir of
        Resolved stdout stderr \<Rightarrow> (Inr (stdout, stderr), log_event (EvExec cmd dir) w)
      | ExitFailure stderr \<Rightarrow> (Inl (commandFailed cmd stderr), log_event (EvExec cmd dir) w)
      | TimedOut stderr \<Rightarrow> (Inl (commandFailed cmd stderr), log_event (EvExec cmd dir) w))"

subsection \<open>The engine\<close>

record BuildResult =
  success :: bool
  imageId :: "string option"
  error :: "string option"

definition buildDirectory :: "env \<Rightarrow> path" where
  "buildDirectory e = path_join (cwd e) ''temp''"

text \<open>\<^verbatim>\<open>initializeBuildDirectory\<close>, called by the constructor; errors are swallowed.\<close>

definition initializeBuildDirectory :: "env \<Rightarrow> world \<Rightarrow> world" where
  "initializeBuildDirectory e w = snd (fs_mkdir (buildDirectory e) w)"

definition fallbackDockerfile :: string where
  \<open>fallbackDockerfile = joinLines
    [''# Simple Node.js Application'',
     ''FROM node:18-alpine'',
     '''',
     ''WORKDIR /app'',
     '''',
     ''# Copy package files'',
     ''COPY package.json ./'',
     '''',
     ''# Install dependencies'',
     ''RUN npm install'',
     '''',
     ''# Copy source files'',
     ''COPY . .'',
     '''',
     ''# Expose port (use numeric port, not environment variable)'',
     ''EXPOSE 3000'',
     '''',
     ''# Start the application'',
     ''CMD ["npm", "start"]'']\<close>

definition dockerignoreContent :: string where
  \<open>dockerignoreContent = joinLines
    [''node_modules'',
     ''npm-debug.log*'',
     ''yarn-debug.log*'',
     ''yarn-error.log*'',
     ''.git'',
     ''.gitignore'',
     ''README.md'',
     ''.env'',
     ''.nyc_output'',
     ''coverage'',
     ''.nyc_output'',
     ''.coverage'',
     ''.cache'',
     ''.parcel-cache'',
     ''.next'',
     ''.nuxt'',
     ''dist'',
     ''build'',
     ''.tmp'',
     ''.temp'',
     ''*.log'',
     ''*.pid'',
     ''*.seed'',
     ''*.pid.lock'',
     ''.DS_Store'',
     ''Thumbs.db'',
     ''.vscode'',
     ''.idea'',
     ''*.swp'',
     ''*.swo'',
     ''*~'']\<close>

definition indexJsContent :: string where
  \<open>indexJsContent = joinLines
    [''const express = require(\'express\');'',
     ''const app = express();'',
     ''const port = process.env.PORT || 3000;'',
     '''',
     ''// Health check endpoint'',
     ''app.get(\'/health\', (req, res) => {'',
     ''  res.status(200).json({ status: \'healthy\', timestamp: new Date().toISOString() });'',
     ''});'',
     '''',
     ''// Basic route'',
     ''app.get(\'/\', (req, res) => {'',
     ''  res.json({ '',
     ''    message: \'Hello from DockGen AI!\', '',
     ''    timestamp: new Date().toISOString(),'',
     (''    version: \'1.0.0'' @ [CHR 0x27]),
     ''  });'',
     ''});'',
     '''',
     ''// Start server'',
     ''app.listen(port, \'0.0.0.0\', () => {'',
     ''  console.log(`Server is running on port ${port}`);'',
     ''  console.log(`Health check available at http://localhost:${port}/health`);'',
     ''});'',
     '''',
     ''// Graceful shutdown'',
     ''process.on(\'SIGTERM\', () => {'',
     ''  console.log(\'SIGTERM received, shutting down gracefully\');'',
     ''  process.exit(0);'',
     ''});'',
     '''',
     ''process.on(\'SIGINT\', () => {'',
     ''  console.log(\'SIGINT received, shutting down gracefully\');'',
     ''  process.exit(0);'',
     ''});'']\<close>

definition createDockerignore :: "path \<Rightarrow> unit io" where
  "createDockerignore buildWorkspace =
     fs_writeFile (path_join buildWorkspace ''.dockerignore'') dockerignoreContent"

definition defaultPackageJson :: json where
  \<open>defaultPackageJson = JObj
     [(''name'', JStr ''dockgen-test''),
      (''version'', JStr ''1.0.0''),
      (''description'', JStr ''Generated by DockGen AI''),
      (''main'', JStr ''index.js''),
      (''scripts'', JObj
         [(''start'', JStr ''node index.js''),
          (''dev'', JStr ''node index.js''),
          (''build'', JStr ''echo "Build completed"'')]),
      (''dependencies'', JObj [(''express'', JStr ''^4.18.2'')]),
      (''engines'', JObj [(''node'', JStr ''>=18.0.0'')])]\<close>

definition createPackageJson :: "RepositoryData option \<Rightarrow> json" where
  "createPackageJson repositoryData =
     (case repositoryData of
        None \<Rightarrow> defaultPackageJson
      | Some r \<Rightarrow>
          (case packageJson r of
             None \<Rightarrow> defaultPackageJson
           | Some pj \<Rightarrow> if truthy pj then pj else defaultPackageJson))"

definition createSourceFiles :: "path \<Rightarrow> RepositoryData option \<Rightarrow> unit io" where
  "createSourceFiles buildWorkspace repositoryData w =
     (if \<not> fileExists (path_join buildWorkspace ''index.js'') w
      then fs_writeFile (path_join buildWorkspace ''index.js'') indexJsContent w
      else (Inr (), w))"

definition imageName :: "string \<Rightarrow> string" where
  "imageName buildId = ''dockgen-ai-'' @ buildId @ '':latest''"

definition buildCommand :: "string \<Rightarrow> string" where
  "buildCommand name = ''docker build --no-cache --progress=plain -t '' @ name @ '' .''"

definition imagesCommand :: "string \<Rightarrow> string" where
  \<open>imagesCommand name = ''docker images '' @ name @ '' --format "{{.ID}}"''\<close>

text \<open>
  The classification of the diagnostic stream, lines 141 to 147 of \<^verbatim>\<open>buildImage\<close>:
  \<^verbatim>\<open>if (stderr) { if (stderr.includes('ERROR') && !stderr.includes('Successfully built')) throw ... }\<close>
\<close>

definition isCriticalError :: "string \<Rightarrow> bool" where
  "isCriticalError stderr =
     (stderr \<noteq> [] \<and> js_includes stderr ''ERROR'' \<and> \<not> js_includes stderr ''Successfully built'')"

text \<open>
  The body of the \<^verbatim>\<open>try\<close> block of \<^verbatim>\<open>createFallbackBuild\<close>, and the function with
  its \<^verbatim>\<open>catch\<close>. The parameters \<^verbatim>\<open>originalDockerfileContent\<close> and \<^verbatim>\<open>repositoryData\<close>
  are not used by the source.
\<close>

definition createFallbackBuild_try :: "env \<Rightarrow> string \<Rightarrow> BuildResult io" where
  "createFallbackBuild_try e buildId =
     (let fallbackBuildDir = path_join (buildDirectory e) buildId;
          dockerfilePath = path_join fallbackBuildDir ''Dockerfile'';
          fallbackImageName = imageName buildId
      in bind (fs_writeFile dockerfilePath fallbackDockerfile) (\<lambda>_.
         bind (exec e (buildCommand fallbackImageName) (Some fallbackBuildDir)) (\<lambda>(stdout, stderr).
         bind (exec e (imagesCommand fallbackImageName) None) (\<lambda>(imagesOutput, _).
           if trim imagesOutput = []
           then throw ''Fallback Docker image was not created successfully''
           else ret \<lparr>success = True, imageId = Some fallbackImageName, error = None\<rparr>))))"

definition createFallbackBuild ::
    "env \<Rightarrow> string \<Rightarrow> string \<Rightarrow> RepositoryData option \<Rightarrow> world \<Rightarrow> BuildResult \<times> world" where
  "createFallbackBuild e originalDockerfileContent buildId repositoryData w =
     (case createFallbackBuild_try e buildId w of
        (Inr r, w') \<Rightarrow> (r, w')
      | (Inl msg, w') \<Rightarrow>
          (\<lparr>success = False, imageId = None,
            error = Some (''Both original and fallback builds failed: '' @ msg)\<rparr>, w'))"

text \<open>
  Lines 106 to 121 of \<^verbatim>\<open>buildImage\<close>, under a name of their own: the build file, the
  exclusion manifest, the dependency manifest when there is none yet, and the placeholder
  source.
\<close>

definition materialize :: "env \<Rightarrow> path \<Rightarrow> string \<Rightarrow> RepositoryData option \<Rightarrow> unit io" where
  "materialize e buildWorkspace dockerfileContent repositoryData =
     bind (fs_writeFile (path_join buildWorkspace ''Dockerfile'') dockerfileContent) (\<lambda>_.
     bind (createDockerignore buildWorkspace) (\<lambda>_.
     bind (\<lambda>w. if \<not> fileExists (path_join buildWorkspace ''package.json'') w
               then fs_writeFile (path_join buildWorkspace ''package.json'')
                      (stringify e (createPackageJson repositoryData)) w
               else (Inr (), w)) (\<lambda>_.
     createSourceFiles buildWorkspace repositoryData)))"

text \<open>
  Lines 123 to 168 of \<^verbatim>\<open>buildImage\<close>: the build, its classification, the verification and
  the cleanup. (The \<^verbatim>\<open>readdir\<close> of line 129 only feeds a log line; the workspace exists
  there.)
\<close>

definition runBuild :: "env \<Rightarrow> path \<Rightarrow> string \<Rightarrow> BuildResult io" where
  "runBuild e buildWorkspace buildId =
     (let containerImageName = imageName buildId
      in bind (exec e (buildCommand containerImageName) (Some buildWorkspace)) (\<lambda>(stdout, stderr).
         if isCriticalError stderr then throw (''Docker build failed: '' @ stderr)
         else
         bind (exec e (imagesCommand containerImageName) None) (\<lambda>(imagesOutput, _).
           if trim imagesOutput = []
           then throw ''Docker image was not created successfully''
           else
           bind (cleanupBuildDir buildWorkspace) (\<lambda>_.
           ret \<lparr>success = True, imageId = Some containerImageName, error = None\<rparr>))))"

text \<open>
  The body of the \<^verbatim>\<open>try\<close> block of \<^verbatim>\<open>buildImage\<close>, and the function with its
  \<^verbatim>\<open>catch\<close>. Everything thrown in the body is an \<^verbatim>\<open>Error\<close>, so the \<^verbatim>\<open>catch\<close> returns
  its message.
\<close>

definition buildImage_try ::
    "env \<Rightarrow> string \<Rightarrow> string \<Rightarrow> RepositoryData option \<Rightarrow> BuildResult io" where
  "buildImage_try e dockerfileContent buildId repositoryData =
     (let uniqueBuildId = uuidv4 e;
          buildWorkspace = path_join (buildDirectory e) uniqueBuildId
      in bind (fs_mkdir buildWorkspace) (\<lambda>_.
         if \<not> isValid (validateDockerfile e dockerfileContent)
         then (\<lambda>w. case createFallbackBuild e dockerfileContent buildId repositoryData w of
                      (r, w') \<Rightarrow> (Inr r, w'))
         else
         bind (materialize e buildWorkspace dockerfileContent repositoryData) (\<lambda>_.
         runBuild e buildWorkspace buildId)))"

definition buildImage ::
    "env \<Rightarrow> string \<Rightarrow> string \<Rightarrow> RepositoryData option \<Rightarrow> world \<Rightarrow> BuildResult \<times> world" where
  "buildImage e dockerfileContent buildId repositoryData w =
     (case buildImage_try e dockerfileContent buildId repositoryData w of
        (Inr r, w') \<Rightarrow> (r, w')
      | (Inl msg, w') \<Rightarrow> (\<lparr>success = False, imageId = None, error = Some msg\<rparr>, w'))"

subsection \<open>Notions used to state the properties\<close>

text \<open>
  The message of the error with which the build step of \<^verbatim>\<open>buildImage\<close> (lines 134 to 147)
  fails, when the outcome of the build command makes it fail: the command is rejected
  (non-zero exit status, or killed at the timeout of 300000 ms), or it resolves with a
  diagnostic stream that is classified as an error.
\<close>

fun buildFailure :: "string \<Rightarrow> exec_result \<Rightarrow> string option" where
  "buildFailure cmd (ExitFailure stderr) = Some (commandFailed cmd stderr)"
| "buildFailure cmd (TimedOut stderr) = Some (commandFailed cmd stderr)"
| "buildFailure cmd (Resolved stdout stderr) =
     (if isCriticalError stderr then Some (''Docker build failed: '' @ stderr) else None)"

text \<open>The calls made between two worlds of one run.\<close>

definition newEvents :: "world \<Rightarrow> world \<Rightarrow> event list" where
  "newEvents w w' = drop (length (trace w)) (trace w')"

subsection \<open>Concrete scenarios\<close>

text \<open>
  Modelled from the spec: the validation service (\<^verbatim>\<open>DockerfileValidationService\<close>) is not
  among the sources, so \<open>validateDockerfile\<close> is a parameter of the engine. The scenarios
  instantiate it with a verdict that rejects a build file without a base-image directive
  and reports a non-empty list of errors for it.
\<close>

definition exampleValidator :: "string \<Rightarrow> ValidationResult" where
  "exampleValidator t =
     (if js_includes t ''FROM ''
      then \<lparr>isValid = True, errors = [], warnings = [], suggestions = []\<rparr>
      else \<lparr>isValid = False, errors = [''Missing FROM instruction''], warnings = [],
            suggestions = []\<rparr>)"

definition validText :: string where
  \<open>validText = ''FROM node:18-alpine\<newline>CMD ["node", "index.js"]''\<close>

definition invalidText :: string where
  "invalidText = ''RUN npm install''"

definition examplePackageJson :: json where
  "examplePackageJson = JObj [(''name'', JStr ''demo'')]"

definition exampleStringify :: "json \<Rightarrow> string" where
  \<open>exampleStringify j =
     (if j = examplePackageJson then ''{\<newline>  "name": "demo"\<newline>}'' else ''{}'')\<close>

definition exampleWorkspace :: path where
  "exampleWorkspace = [''app'', ''temp'', ''1b9d6bcd-bbfd-4b2d-9b5d-ab8dfbbd4bed'']"

definition jobDir :: path where
  "jobDir = [''app'', ''temp'', ''job1'']"

text \<open>
  An invocation in \<^verbatim>\<open>/app\<close> with build id \<^verbatim>\<open>job1\<close>: \<open>primary\<close> is the outcome of a
  command run in the workspace of the invocation, \<open>fallback\<close> the outcome of one run in
  \<^verbatim>\<open>/app/temp/job1\<close>, and \<open>images\<close> the outcome of a command run without a working
  directory (the query of the image store).
\<close>

definition scenario :: "exec_result \<Rightarrow> exec_result \<Rightarrow> exec_result \<Rightarrow> env" where
  "scenario primary fallback images =
     \<lparr>cwd = [''app''],
      uuidv4 = ''1b9d6bcd-bbfd-4b2d-9b5d-ab8dfbbd4bed'',
      validateDockerfile = exampleValidator,
      execAsync = (\<lambda>cmd dir. if dir = Some exampleWorkspace then primary
                              else if dir = Some jobDir then fallback
                              else images),
      stringify = exampleStringify\<rparr>"

text \<open>The disk once the engine has been constructed in \<^verbatim>\<open>/app\<close>.\<close>

definition freshWorld :: world where
  "freshWorld = \<lparr>dirs = {[''app''], [''app'', ''temp'']}, files = Map.empty,
                 mkdirFault = (\<lambda>p. None), trace = []\<rparr>"

text \<open>A disk on which \<^verbatim>\<open>/app/temp/job1\<close> exists already and holds a project.\<close>

definition preparedWorld :: world where
  \<open>preparedWorld =
     \<lparr>dirs = {[''app''], [''app'', ''temp''], jobDir},
      files = [jobDir @ [''package.json''] \<mapsto> ''{"scripts":{"start":"node index.js"}}'',
               jobDir @ [''index.js''] \<mapsto> ''console.log(1)''],
      mkdirFault = (\<lambda>p. None),
      trace = []\<rparr>\<close>

text \<open>A disk on which the build root \<^verbatim>\<open>/app/temp\<close> is a regular file.\<close>

definition blockedWorld :: world where
  "blockedWorld = \<lparr>dirs = {[''app'']}, files = [[''app'', ''temp''] \<mapsto> ''x''],
                   mkdirFault = (\<lambda>p. None), trace = []\<rparr>"

text \<open>A disk on which \<^verbatim>\<open>/app\<close> exists and the build root does not.\<close>

definition rootlessWorld :: world where
  "rootlessWorld = \<lparr>dirs = {[''app'']}, files = Map.empty, mkdirFault = (\<lambda>p. None),
                    trace = []\<rparr>"

section \<open>Properties\<close>

subsection \<open>Evaluation of the scenarios\<close>

lemmas engine_defs =
  buildImage_def buildImage_try_def createFallbackBuild_def createFallbackBuild_try_def
  runBuild_def materialize_def createDockerignore_def createSourceFiles_def createPackageJson_def
  cleanupBuildDir_def isCriticalError_def imageName_def buildCommand_def imagesCommand_def
  buildDirectory_def

lemmas world_defs =
  bind_def ret_def throw_def log_event_def isDir_def fs_mkdir_def mkdirError_def fs_writeFile_def
  fs_rm_def
  fileExists_def exec_def commandFailed_def enoent_def path_str_def path_join_def path_step_def
  trim_def js_whitespace_def newEvents_def

lemmas scenario_defs =
  scenario_def exampleValidator_def validText_def invalidText_def exampleWorkspace_def jobDir_def
  freshWorld_def preparedWorld_def blockedWorld_def rootlessWorld_def exampleStringify_def
  examplePackageJson_def

subsection \<open>Strings and paths\<close>


lemma path_join_Dockerfile: "path_join p ''Dockerfile'' = p @ [''Dockerfile'']"
  by (simp add: path_join_def path_step_def)

lemma path_join_dockerignore: "path_join p ''.dockerignore'' = p @ [''.dockerignore'']"
  by (simp add: path_join_def path_step_def)

lemma path_join_package_json: "path_join p ''package.json'' = p @ [''package.json'']"
  by (simp add: path_join_def path_step_def)

lemma path_join_index_js: "path_join p ''index.js'' = p @ [''index.js'']"
  by (simp add: path_join_def path_step_def)

lemmas path_join_names =
  path_join_Dockerfile path_join_dockerignore path_join_package_json path_join_index_js


subsection \<open>The file system operations and the steps of the engine\<close>

lemma fs_writeFile_ok:
  "isDir w (butlast p) \<Longrightarrow> fs_writeFile p c w = (Inr (), (log_event (EvWriteFile p c) w)\<lparr>files := (files w)(p \<mapsto> c)\<rparr>)"
  by (simp add: fs_writeFile_def)

lemma isDir_log_event [simp]: "isDir (log_event ev w) p = isDir w p"
  by (simp add: isDir_def log_event_def)

lemma isDir_files_update [simp]: "isDir (w\<lparr>files := f\<rparr>) p = isDir w p"
  by (simp add: isDir_def)

lemma isDir_trace_update [simp]: "isDir (w\<lparr>trace := f\<rparr>) p = isDir w p"
  by (simp add: isDir_def)

lemma isDir_mkdirFault_update [simp]: "isDir (w\<lparr>mkdirFault := f\<rparr>) p = isDir w p"
  by (simp add: isDir_def)

lemma fs_mkdir_ok:
  "fst (fs_mkdir p w) = Inr () \<Longrightarrow>
     fs_mkdir p w = (Inr (), (log_event (EvMkdir p) w)\<lparr>dirs := dirs w \<union> set (prefixes p)\<rparr>)"
  by (auto simp: fs_mkdir_def split: option.splits if_splits)

lemma fs_mkdir_rejected:
  "fst (fs_mkdir p w) = Inl msg \<Longrightarrow> fs_mkdir p w = (Inl msg, log_event (EvMkdir p) w)"
  by (auto simp: fs_mkdir_def split: option.splits if_splits)

lemma fs_mkdir_nonempty: "fst (fs_mkdir p w) = Inl m \<Longrightarrow> m \<noteq> []"
  by (cases "mkdirFault w p"; cases "the (mkdirFault w p)")
     (auto simp: fs_mkdir_def mkdirError_def split: if_splits)

lemma fs_mkdir_files_trace:
  "files (snd (fs_mkdir p w)) = files w" "trace (snd (fs_mkdir p w)) = trace w @ [EvMkdir p]"
  by (auto simp: fs_mkdir_def log_event_def split: option.splits)

lemma isDir_fs_mkdir:
  "fst (fs_mkdir p w) = Inr () \<Longrightarrow> isDir (snd (fs_mkdir p w)) q = (isDir w q \<or> prefix q p)"
  by (auto simp: fs_mkdir_ok isDir_def log_event_def)

lemma materialize_ok:
  "isDir w ws \<Longrightarrow> fst (materialize e ws t repo w) = Inr ()"
  by (simp add: materialize_def bind_def fs_writeFile_def createDockerignore_def
        createSourceFiles_def path_join_names)

lemma materialize_dirs: "dirs (snd (materialize e ws t repo w)) = dirs w"
  by (simp add: materialize_def bind_def fs_writeFile_def createDockerignore_def
        createSourceFiles_def path_join_names log_event_def)

lemma exec_nonempty: "fst (exec e cmd dir w) = Inl m \<Longrightarrow> m \<noteq> []"
  by (auto simp: exec_def commandFailed_def split: exec_result.splits)

lemma fs_writeFile_nonempty: "fst (fs_writeFile p c w) = Inl m \<Longrightarrow> m \<noteq> []"
  by (auto simp: fs_writeFile_def enoent_def split: if_splits)

lemma bind_Inl:
  "fst (bind m f w) = Inl msg \<Longrightarrow>
     fst (m w) = Inl msg \<or> (\<exists>a w'. m w = (Inr a, w') \<and> fst (f a w') = Inl msg)"
  by (auto simp: bind_def split: prod.splits sum.splits)

lemma bind_Inr:
  "fst (bind m f w) = Inr r \<Longrightarrow> \<exists>a w'. m w = (Inr a, w') \<and> fst (f a w') = Inr r"
  by (auto simp: bind_def split: prod.splits sum.splits)

lemma materialize_nonempty: "fst (materialize e ws t repo w) = Inl m \<Longrightarrow> m \<noteq> []"
  unfolding materialize_def createDockerignore_def createSourceFiles_def
  by (auto dest!: bind_Inl fs_writeFile_nonempty split: if_splits)

lemma runBuild_Inl_nonempty: "fst (runBuild e ws buildId w) = Inl m \<Longrightarrow> m \<noteq> []"
  unfolding runBuild_def Let_def
  by (auto dest!: bind_Inl exec_nonempty simp: throw_def ret_def cleanupBuildDir_def fs_rm_def
        split: if_splits prod.splits)

lemma runBuild_Inr_shape:
  "fst (runBuild e ws buildId w) = Inr r \<Longrightarrow>
     r = \<lparr>success = True, imageId = Some (imageName buildId), error = None\<rparr>"
  unfolding runBuild_def Let_def
  by (auto dest!: bind_Inr simp: throw_def ret_def cleanupBuildDir_def fs_rm_def
        split: if_splits prod.splits)

lemma createFallbackBuild_try_Inr_shape:
  "fst (createFallbackBuild_try e buildId w) = Inr r \<Longrightarrow>
     r = \<lparr>success = True, imageId = Some (imageName buildId), error = None\<rparr>"
  unfolding createFallbackBuild_try_def Let_def
  by (auto dest!: bind_Inr simp: throw_def ret_def split: if_splits prod.splits)

lemma createFallbackBuild_shape:
  "fst (createFallbackBuild e t buildId repo w) =
       \<lparr>success = True, imageId = Some (imageName buildId), error = None\<rparr>
   \<or> (\<exists>m. fst (createFallbackBuild e t buildId repo w) =
          \<lparr>success = False, imageId = None,
           error = Some (''Both original and fallback builds failed: '' @ m)\<rparr>)"
  using createFallbackBuild_try_Inr_shape [of e buildId w]
  by (auto simp: createFallbackBuild_def split: prod.splits sum.splits)

lemma buildImage_try_Inr_shape:
  "fst (buildImage_try e t buildId repo w) = Inr r \<Longrightarrow>
     r = \<lparr>success = True, imageId = Some (imageName buildId), error = None\<rparr>
     \<or> (\<exists>m. r = \<lparr>success = False, imageId = None,
           error = Some (''Both original and fallback builds failed: '' @ m)\<rparr>)"
proof -
  assume r: "fst (buildImage_try e t buildId repo w) = Inr r"
  let ?ws = "path_join (buildDirectory e) (uuidv4 e)"
  from r obtain w1 where mk: "fs_mkdir ?ws w = (Inr (), w1)"
    unfolding buildImage_try_def Let_def by (auto dest!: bind_Inr)
  show ?thesis
  proof (cases "isValid (validateDockerfile e t)")
    case True
    with r mk show ?thesis
      unfolding buildImage_try_def Let_def
      by (auto simp: bind_def dest!: runBuild_Inr_shape split: prod.splits sum.splits)
  next
    case False
    with r mk createFallbackBuild_shape [of e t buildId repo w1] show ?thesis
      unfolding buildImage_try_def Let_def
      by (auto simp: bind_def split: prod.splits)
  qed
qed

lemma buildImage_try_Inl_nonempty:
  "fst (buildImage_try e t buildId repo w) = Inl m \<Longrightarrow> m \<noteq> []"
  unfolding buildImage_try_def Let_def
  by (auto dest!: bind_Inl materialize_nonempty runBuild_Inl_nonempty fs_mkdir_nonempty
        split: if_splits prod.splits)

lemma fs_mkdir_isDir_self: "fst (fs_mkdir p w) = Inr () \<Longrightarrow> isDir (snd (fs_mkdir p w)) p"
  by (simp add: isDir_fs_mkdir)

lemma buildImage_valid:
  assumes "isValid (validateDockerfile e t)"
    and "fst (fs_mkdir (path_join (buildDirectory e) (uuidv4 e)) w) = Inr ()"
  shows "buildImage e t buildId repo w =
     (case runBuild e (path_join (buildDirectory e) (uuidv4 e)) buildId
             (snd (materialize e (path_join (buildDirectory e) (uuidv4 e)) t repo
                (snd (fs_mkdir (path_join (buildDirectory e) (uuidv4 e)) w)))) of
        (Inr r, w') \<Rightarrow> (r, w')
      | (Inl msg, w') \<Rightarrow> (\<lparr>success = False, imageId = None, error = Some msg\<rparr>, w'))"
proof -
  let ?ws = "path_join (buildDirectory e) (uuidv4 e)"
  define w1 where "w1 = snd (fs_mkdir ?ws w)"
  have mk: "fs_mkdir ?ws w = (Inr (), w1)"
    using assms(2) by (simp add: w1_def prod_eq_iff)
  have "isDir w1 ?ws"
    unfolding w1_def using assms(2) by (rule fs_mkdir_isDir_self)
  then have "fst (materialize e ?ws t repo w1) = Inr ()"
    by (rule materialize_ok)
  then obtain w2 where mat: "materialize e ?ws t repo w1 = (Inr (), w2)"
    by (metis prod.collapse)
  show ?thesis
    using assms(1)
    by (simp add: buildImage_def buildImage_try_def Let_def bind_def mk mat)
qed

lemma buildImage_invalid:
  assumes "\<not> isValid (validateDockerfile e t)"
    and "fst (fs_mkdir (path_join (buildDirectory e) (uuidv4 e)) w) = Inr ()"
  shows "buildImage e t buildId repo w =
     createFallbackBuild e t buildId repo (snd (fs_mkdir (path_join (buildDirectory e) (uuidv4 e)) w))"
proof -
  obtain w1 where mk: "fs_mkdir (path_join (buildDirectory e) (uuidv4 e)) w = (Inr (), w1)"
    using assms(2) by (metis prod.collapse)
  show ?thesis
    using assms(1)
    by (simp add: buildImage_def buildImage_try_def Let_def bind_def mk split: prod.splits)
qed

lemma buildImage_mkdir_rejected:
  assumes "fst (fs_mkdir (path_join (buildDirectory e) (uuidv4 e)) w) = Inl msg"
  shows "buildImage e t buildId repo w =
           (\<lparr>success = False, imageId = None, error = Some msg\<rparr>,
            log_event (EvMkdir (path_join (buildDirectory e) (uuidv4 e))) w)"
  by (simp add: buildImage_def buildImage_try_def Let_def bind_def fs_mkdir_rejected [OF assms])

lemma runBuild_trace:
  "trace (snd (runBuild e ws buildId w)) = trace w @ newEvents w (snd (runBuild e ws buildId w))
   \<and> prefix (newEvents w (snd (runBuild e ws buildId w)))
        [EvExec (buildCommand (imageName buildId)) (Some ws),
         EvExec (imagesCommand (imageName buildId)) None, EvRm ws]"
  by (auto simp: runBuild_def Let_def bind_def exec_def throw_def ret_def cleanupBuildDir_def
        fs_rm_def log_event_def newEvents_def split: exec_result.splits)

lemma runBuild_failure:
  assumes "buildFailure (buildCommand (imageName buildId))
             (execAsync e (buildCommand (imageName buildId)) (Some ws)) = Some msg"
  shows "runBuild e ws buildId w =
           (Inl msg, log_event (EvExec (buildCommand (imageName buildId)) (Some ws)) w)"
  using assms
  by (cases "execAsync e (buildCommand (imageName buildId)) (Some ws)")
     (auto simp: runBuild_def Let_def bind_def exec_def throw_def split: if_splits)

subsection \<open>The fallback build and the manifest\<close>

lemma createFallbackBuild_text_irrelevant:
  "createFallbackBuild e t buildId repo w = createFallbackBuild e t' buildId repo' w"
  by (simp add: createFallbackBuild_def)

lemma createFallbackBuild_try_isDir_only:
  assumes "isDir w (path_join (buildDirectory e) buildId) = isDir w' (path_join (buildDirectory e) buildId)"
  shows "fst (createFallbackBuild_try e buildId w) = fst (createFallbackBuild_try e buildId w')"
  using assms
  by (auto simp: createFallbackBuild_try_def Let_def bind_def fs_writeFile_def exec_def throw_def
        ret_def path_join_names split: exec_result.splits prod.splits sum.splits)

lemma createFallbackBuild_isDir_only:
  assumes "isDir w (path_join (buildDirectory e) buildId) = isDir w' (path_join (buildDirectory e) buildId)"
  shows "fst (createFallbackBuild e t buildId repo w) = fst (createFallbackBuild e t buildId repo w')"
  using createFallbackBuild_try_isDir_only [OF assms]
  by (auto simp: createFallbackBuild_def split: prod.splits sum.splits)

lemma createFallbackBuild_try_frame:
  "dirs (snd (createFallbackBuild_try e buildId w)) = dirs w
   \<and> files (snd (createFallbackBuild_try e buildId w)) =
       (if isDir w (path_join (buildDirectory e) buildId)
        then (files w)(path_join (path_join (buildDirectory e) buildId) ''Dockerfile'' \<mapsto> fallbackDockerfile)
        else files w)
   \<and> (\<exists>evs. trace (snd (createFallbackBuild_try e buildId w)) = trace w @ 
          EvWriteFile (path_join (path_join (buildDirectory e) buildId) ''Dockerfile'') fallbackDockerfile # evs
          \<and> (\<forall>ev \<in> set evs. \<exists>cmd dir. ev = EvExec cmd dir))
   \<and> (\<not> isDir w (path_join (buildDirectory e) buildId) \<longrightarrow>
         createFallbackBuild_try e buildId w =
           (Inl (enoent (path_join (path_join (buildDirectory e) buildId) ''Dockerfile'')),
            log_event (EvWriteFile (path_join (path_join (buildDirectory e) buildId) ''Dockerfile'')
               fallbackDockerfile) w))"
  by (auto simp: createFallbackBuild_try_def Let_def bind_def fs_writeFile_def exec_def throw_def
        ret_def path_join_names log_event_def split: exec_result.splits prod.splits sum.splits)

lemma createFallbackBuild_effects:
  "dirs (snd (createFallbackBuild e t buildId repo w)) = dirs w
   \<and> files (snd (createFallbackBuild e t buildId repo w)) =
       (if isDir w (path_join (buildDirectory e) buildId)
        then (files w)(path_join (path_join (buildDirectory e) buildId) ''Dockerfile''
                        \<mapsto> fallbackDockerfile)
        else files w)
   \<and> (\<exists>evs. trace (snd (createFallbackBuild e t buildId repo w)) = trace w @
          EvWriteFile (path_join (path_join (buildDirectory e) buildId) ''Dockerfile'')
            fallbackDockerfile # evs
          \<and> (\<forall>ev \<in> set evs. \<exists>cmd dir. ev = EvExec cmd dir))"
proof -
  have "snd (createFallbackBuild e t buildId repo w) = snd (createFallbackBuild_try e buildId w)"
    by (simp add: createFallbackBuild_def split: prod.splits sum.splits)
  with createFallbackBuild_try_frame [of e buildId w] show ?thesis
    by simp
qed

lemma createFallbackBuild_missing_dir:
  assumes "\<not> isDir w (path_join (buildDirectory e) buildId)"
  shows "fst (createFallbackBuild e t buildId repo w) =
           \<lparr>success = False, imageId = None,
            error = Some (''Both original and fallback builds failed: '' @
              enoent (path_join (path_join (buildDirectory e) buildId) ''Dockerfile''))\<rparr>"
  using createFallbackBuild_try_frame [of e buildId w] assms
  by (simp add: createFallbackBuild_def)

lemma runBuild_unverified:
  assumes "execAsync e (buildCommand (imageName buildId)) (Some ws) = Resolved out err"
    and "\<not> isCriticalError err"
    and "execAsync e (imagesCommand (imageName buildId)) None = Resolved iout ierr"
    and "trim iout = []"
  shows "runBuild e ws buildId w =
           (Inl ''Docker image was not created successfully'',
            log_event (EvExec (imagesCommand (imageName buildId)) None)
              (log_event (EvExec (buildCommand (imageName buildId)) (Some ws)) w))"
  using assms by (simp add: runBuild_def Let_def bind_def exec_def throw_def)

lemma createFallbackBuild_unverified:
  assumes "isDir w (path_join (buildDirectory e) buildId)"
    and "execAsync e (buildCommand (imageName buildId)) (Some (path_join (buildDirectory e) buildId))
           = Resolved out err"
    and "execAsync e (imagesCommand (imageName buildId)) None = Resolved iout ierr"
    and "trim iout = []"
  shows "fst (createFallbackBuild e t buildId repo w) =
           \<lparr>success = False, imageId = None,
            error = Some ''Both original and fallback builds failed: Fallback Docker image was not created successfully''\<rparr>
       \<and> last (trace (snd (createFallbackBuild e t buildId repo w))) =
           EvExec (imagesCommand (imageName buildId)) None"
  using assms
  by (simp add: createFallbackBuild_def createFallbackBuild_try_def Let_def bind_def exec_def
        throw_def fs_writeFile_def path_join_names log_event_def)

lemma exec_validator_irrelevant:
  "exec (e\<lparr>validateDockerfile := v\<rparr>) cmd dir = exec e cmd dir"
  by (rule ext) (simp add: exec_def)

lemma createFallbackBuild_validator_irrelevant:
  "createFallbackBuild (e\<lparr>validateDockerfile := v\<rparr>) t buildId repo w =
   createFallbackBuild e t buildId repo w"
  by (simp add: createFallbackBuild_def createFallbackBuild_try_def buildDirectory_def
        exec_validator_irrelevant)

lemma materialize_package_json:
  "files (snd (materialize e ws t repo w)) (path_join ws ''package.json'') =
     (if isDir w ws \<and> \<not> fileExists (path_join ws ''package.json'') w
      then Some (stringify e (createPackageJson repo))
      else files w (path_join ws ''package.json''))"
  by (simp add: materialize_def bind_def fs_writeFile_def createDockerignore_def
        createSourceFiles_def path_join_names log_event_def fileExists_def isDir_def)

lemma materialize_isDir: "isDir (snd (materialize e ws t repo w)) p = isDir w p"
  by (simp add: isDir_def materialize_dirs)

lemma materialize_package_json_exists:
  "isDir w ws \<Longrightarrow> fileExists (path_join ws ''package.json'') (snd (materialize e ws t repo w))"
  using materialize_package_json [of e ws t repo w]
  by (auto simp: fileExists_def materialize_isDir split: if_splits)

subsection \<open>The claims\<close>

text \<open>
  Claim C1, as amended. When the build file passes validation, the workspace directory is
  created and the build step fails (the build command is rejected, by a non-zero exit
  status or by the timeout, or its diagnostic stream is classified as an error),
  \<open>buildImage\<close> returns \<open>success = False\<close> with the message of that failure and does
  nothing more: the world it leaves is the materialised workspace plus the one build
  command, so the fallback is not invoked. More generally, whatever the commands answer for
  a build file that passes validation, the calls that follow the materialisation are an
  initial part of: the build command, the query of the image store, the removal of the
  workspace.
\<close>

theorem primary_failure_is_returned:
  assumes "isValid (validateDockerfile e t)"
    and "fst (fs_mkdir (path_join (buildDirectory e) (uuidv4 e)) w) = Inr ()"
  shows "(\<forall>msg. buildFailure (buildCommand (imageName buildId))
                  (execAsync e (buildCommand (imageName buildId))
                     (Some (path_join (buildDirectory e) (uuidv4 e)))) = Some msg
            \<longrightarrow> buildImage e t buildId repo w =
                  (\<lparr>success = False, imageId = None, error = Some msg\<rparr>,
                   log_event (EvExec (buildCommand (imageName buildId))
                                (Some (path_join (buildDirectory e) (uuidv4 e))))
                     (snd (materialize e (path_join (buildDirectory e) (uuidv4 e)) t repo
                        (snd (fs_mkdir (path_join (buildDirectory e) (uuidv4 e)) w))))))
       \<and> trace (snd (buildImage e t buildId repo w)) =
           trace (snd (materialize e (path_join (buildDirectory e) (uuidv4 e)) t repo
                    (snd (fs_mkdir (path_join (buildDirectory e) (uuidv4 e)) w))))
           @ newEvents (snd (materialize e (path_join (buildDirectory e) (uuidv4 e)) t repo
                          (snd (fs_mkdir (path_join (buildDirectory e) (uuidv4 e)) w))))
               (snd (buildImage e t buildId repo w))
       \<and> prefix (newEvents (snd (materialize e (path_join (buildDirectory e) (uuidv4 e)) t repo
                                (snd (fs_mkdir (path_join (buildDirectory e) (uuidv4 e)) w))))
                   (snd (buildImage e t buildId repo w)))
           [EvExec (buildCommand (imageName buildId)) (Some (path_join (buildDirectory e) (uuidv4 e))),
            EvExec (imagesCommand (imageName buildId)) None,
            EvRm (path_join (buildDirectory e) (uuidv4 e))]"
proof -
  let ?ws = "path_join (buildDirectory e) (uuidv4 e)"
  define w2 where "w2 = snd (materialize e ?ws t repo (snd (fs_mkdir ?ws w)))"
  have w': "snd (buildImage e t buildId repo w) = snd (runBuild e ?ws buildId w2)"
    by (simp add: buildImage_valid [OF assms] w2_def split: prod.splits sum.splits)
  have fails: "buildImage e t buildId repo w =
                  (\<lparr>success = False, imageId = None, error = Some msg\<rparr>,
                   log_event (EvExec (buildCommand (imageName buildId)) (Some ?ws)) w2)"
    if "buildFailure (buildCommand (imageName buildId))
          (execAsync e (buildCommand (imageName buildId)) (Some ?ws)) = Some msg" for msg
    by (simp add: buildImage_valid [OF assms] runBuild_failure [OF that] w2_def)
  from fails runBuild_trace [of e ?ws buildId w2] show ?thesis
    unfolding w' w2_def [symmetric] by blast
qed

theorem primary_failure_is_returned_witness:
  "isValid (validateDockerfile (scenario (TimedOut []) (Resolved [] []) (Resolved [] [])) validText)
   \<and> fst (fs_mkdir (path_join (buildDirectory (scenario (TimedOut []) (Resolved [] []) (Resolved [] [])))
                       (uuidv4 (scenario (TimedOut []) (Resolved [] []) (Resolved [] []))))
             freshWorld) = Inr ()
   \<and> buildFailure (buildCommand (imageName ''job1''))
        (execAsync (scenario (TimedOut []) (Resolved [] []) (Resolved [] []))
           (buildCommand (imageName ''job1''))
           (Some (path_join (buildDirectory (scenario (TimedOut []) (Resolved [] []) (Resolved [] [])))
                    (uuidv4 (scenario (TimedOut []) (Resolved [] []) (Resolved [] []))))))
      = Some ''Command failed: docker build --no-cache --progress=plain -t dockgen-ai-job1:latest .\<newline>''
   \<and> fst (buildImage (scenario (TimedOut []) (Resolved [] []) (Resolved [] [])) validText ''job1''
          None freshWorld)
      = \<lparr>success = False, imageId = None,
         error = Some ''Command failed: docker build --no-cache --progress=plain -t dockgen-ai-job1:latest .\<newline>''\<rparr>"
proof -
  let ?e = "scenario (TimedOut []) (Resolved [] []) (Resolved [] [])"
  have h1: "isValid (validateDockerfile ?e validText)"
    by (simp add: scenario_defs)
  have h2: "fst (fs_mkdir (path_join (buildDirectory ?e) (uuidv4 ?e)) freshWorld) = Inr ()"
    by (simp add: scenario_defs engine_defs world_defs)
  have h3: "buildFailure (buildCommand (imageName ''job1''))
        (execAsync ?e (buildCommand (imageName ''job1''))
           (Some (path_join (buildDirectory ?e) (uuidv4 ?e))))
      = Some ''Command failed: docker build --no-cache --progress=plain -t dockgen-ai-job1:latest .\<newline>''"
    by (simp add: scenario_defs engine_defs world_defs)
  show ?thesis
    using h1 h2 h3 primary_failure_is_returned [OF h1 h2, of "''job1''" None] by simp
qed

text \<open>
  Claim C1 as stated fails: with a valid build file and a build command that times out
  (or that reports an error), on a disk where the fallback build would succeed, the
  pipeline returns the failure of the primary build, although the fallback, run on the
  world the pipeline left, succeeds with its artifact id.
\<close>

theorem fallback_after_primary_failure_counterexample:
  "fst (buildImage (scenario (TimedOut []) (Resolved [] []) (Resolved ''4f1c2a9d0b7e\<newline>'' []))
          validText ''job1'' None preparedWorld)
     = \<lparr>success = False, imageId = None,
        error = Some ''Command failed: docker build --no-cache --progress=plain -t dockgen-ai-job1:latest .\<newline>''\<rparr>
   \<and> fst (createFallbackBuild (scenario (TimedOut []) (Resolved [] []) (Resolved ''4f1c2a9d0b7e\<newline>'' []))
          validText ''job1'' None
          (snd (buildImage (scenario (TimedOut []) (Resolved [] []) (Resolved ''4f1c2a9d0b7e\<newline>'' []))
                  validText ''job1'' None preparedWorld)))
     = \<lparr>success = True, imageId = Some ''dockgen-ai-job1:latest'', error = None\<rparr>
   \<and> fst (buildImage (scenario (Resolved [] ''ERROR: no such file'') (Resolved [] [])
                         (Resolved ''4f1c2a9d0b7e\<newline>'' []))
          validText ''job1'' None preparedWorld)
     = \<lparr>success = False, imageId = None,
        error = Some ''Docker build failed: ERROR: no such file''\<rparr>
   \<and> fst (createFallbackBuild (scenario (Resolved [] ''ERROR: no such file'') (Resolved [] [])
                                   (Resolved ''4f1c2a9d0b7e\<newline>'' []))
          validText ''job1'' None
          (snd (buildImage (scenario (Resolved [] ''ERROR: no such file'') (Resolved [] [])
                              (Resolved ''4f1c2a9d0b7e\<newline>'' []))
                  validText ''job1'' None preparedWorld)))
     = \<lparr>success = True, imageId = Some ''dockgen-ai-job1:latest'', error = None\<rparr>"
  by (simp add: engine_defs world_defs scenario_defs Let_def)

text \<open>
  Claim C2. Every result of \<open>buildImage\<close>, on the primary and on the fallback path, has
  one of two shapes: \<open>success\<close> with the image id \<^verbatim>\<open>dockgen-ai-<buildId>:latest\<close> and
  no error message, or no \<open>success\<close>, no image id and a non-empty error message.
\<close>

theorem buildResult_invariant:
  "(success (fst (buildImage e t buildId repo w))
      \<and> imageId (fst (buildImage e t buildId repo w)) = Some (''dockgen-ai-'' @ buildId @ '':latest'')
      \<and> error (fst (buildImage e t buildId repo w)) = None)
   \<or> (\<not> success (fst (buildImage e t buildId repo w))
      \<and> imageId (fst (buildImage e t buildId repo w)) = None
      \<and> (\<exists>m. error (fst (buildImage e t buildId repo w)) = Some m \<and> m \<noteq> []))"
proof (cases "fst (buildImage_try e t buildId repo w)")
  case (Inl m)
  then have "m \<noteq> []" by (rule buildImage_try_Inl_nonempty)
  with Inl show ?thesis
    by (auto simp: buildImage_def split: prod.splits)
next
  case (Inr r)
  from buildImage_try_Inr_shape [OF Inr] Inr show ?thesis
    by (auto simp: buildImage_def imageName_def split: prod.splits)
qed

theorem buildResult_invariant_witness:
  "success (fst (buildImage (scenario (Resolved [] []) (Resolved [] []) (Resolved ''4f1c2a9d0b7e\<newline>'' []))
                   validText ''job1'' None freshWorld))
   \<and> imageId (fst (buildImage (scenario (Resolved [] []) (Resolved [] []) (Resolved ''4f1c2a9d0b7e\<newline>'' []))
                   validText ''job1'' None freshWorld)) = Some ''dockgen-ai-job1:latest''
   \<and> \<not> success (fst (buildImage (scenario (Resolved [] []) (Resolved [] []) (Resolved ''4f1c2a9d0b7e\<newline>'' []))
                   invalidText ''job1'' None freshWorld))"
  using buildResult_invariant [of "scenario (Resolved [] []) (Resolved [] []) (Resolved ''4f1c2a9d0b7e\<newline>'' [])"
          validText "''job1''" None freshWorld]
    buildResult_invariant [of "scenario (Resolved [] []) (Resolved [] []) (Resolved ''4f1c2a9d0b7e\<newline>'' [])"
          invalidText "''job1''" None freshWorld]
  by (simp add: engine_defs world_defs scenario_defs Let_def)

text \<open>
  Claim C3, as amended. When the build file fails validation and the workspace directory
  of the invocation is created, \<open>buildImage\<close> is the fallback build run on the world
  after that creation; its result is that of the fallback run alone on the initial world
  whenever the directory of the fallback exists already or is neither the workspace nor one
  of its ancestors. When the workspace directory cannot be created, \<open>buildImage\<close>
  returns that error and makes no other call. In every case the only file written is the
  fixed fallback build file, so the rejected text reaches no file.
\<close>

theorem validation_failure_redirects:
  assumes "\<not> isValid (validateDockerfile e t)"
  shows "(fst (fs_mkdir (path_join (buildDirectory e) (uuidv4 e)) w) = Inr ()
           \<longrightarrow> buildImage e t buildId repo w =
                 createFallbackBuild e t buildId repo
                   (snd (fs_mkdir (path_join (buildDirectory e) (uuidv4 e)) w)))
       \<and> (fst (fs_mkdir (path_join (buildDirectory e) (uuidv4 e)) w) = Inr ()
           \<and> (isDir w (path_join (buildDirectory e) buildId)
               \<or> \<not> prefix (path_join (buildDirectory e) buildId)
                            (path_join (buildDirectory e) (uuidv4 e)))
           \<longrightarrow> fst (buildImage e t buildId repo w) = fst (createFallbackBuild e t buildId repo w))
       \<and> (\<forall>msg. fst (fs_mkdir (path_join (buildDirectory e) (uuidv4 e)) w) = Inl msg
           \<longrightarrow> buildImage e t buildId repo w =
                 (\<lparr>success = False, imageId = None, error = Some msg\<rparr>,
                  log_event (EvMkdir (path_join (buildDirectory e) (uuidv4 e))) w))
       \<and> (\<forall>p c. EvWriteFile p c \<in> set (newEvents w (snd (buildImage e t buildId repo w)))
             \<longrightarrow> p = path_join (path_join (buildDirectory e) buildId) ''Dockerfile''
                 \<and> c = fallbackDockerfile)
       \<and> (\<forall>p. p \<noteq> path_join (path_join (buildDirectory e) buildId) ''Dockerfile''
             \<longrightarrow> files (snd (buildImage e t buildId repo w)) p = files w p)"
proof (cases "fst (fs_mkdir (path_join (buildDirectory e) (uuidv4 e)) w)")
  case (Inl msg)
  have res: "buildImage e t buildId repo w =
                 (\<lparr>success = False, imageId = None, error = Some msg\<rparr>,
                  log_event (EvMkdir (path_join (buildDirectory e) (uuidv4 e))) w)"
    using Inl by (rule buildImage_mkdir_rejected)
  have writes: "\<forall>p c. EvWriteFile p c \<in> set (newEvents w (snd (buildImage e t buildId repo w)))
             \<longrightarrow> p = path_join (path_join (buildDirectory e) buildId) ''Dockerfile''
                 \<and> c = fallbackDockerfile"
    by (simp add: res newEvents_def log_event_def)
  have frame: "\<forall>p. p \<noteq> path_join (path_join (buildDirectory e) buildId) ''Dockerfile''
             \<longrightarrow> files (snd (buildImage e t buildId repo w)) p = files w p"
    by (simp add: res log_event_def)
  from Inl res writes frame show ?thesis
    by simp
next
  case (Inr u)
  then have ok: "fst (fs_mkdir (path_join (buildDirectory e) (uuidv4 e)) w) = Inr ()"
    by simp
  let ?ws = "path_join (buildDirectory e) (uuidv4 e)"
  let ?fb = "path_join (buildDirectory e) buildId"
  let ?df = "path_join ?fb ''Dockerfile''"
  define w1 where "w1 = snd (fs_mkdir ?ws w)"
  have red: "buildImage e t buildId repo w = createFallbackBuild e t buildId repo w1"
    unfolding w1_def using assms ok by (rule buildImage_invalid)
  have w1: "files w1 = files w" "trace w1 = trace w @ [EvMkdir ?ws]"
    by (simp_all add: w1_def fs_mkdir_files_trace)
  have alone: "isDir w ?fb \<or> \<not> prefix ?fb ?ws
           \<longrightarrow> fst (buildImage e t buildId repo w) = fst (createFallbackBuild e t buildId repo w)"
  proof
    assume "isDir w ?fb \<or> \<not> prefix ?fb ?ws"
    then have "isDir w1 ?fb = isDir w ?fb"
      by (auto simp: w1_def isDir_fs_mkdir [OF ok])
    then show "fst (buildImage e t buildId repo w) = fst (createFallbackBuild e t buildId repo w)"
      unfolding red by (rule createFallbackBuild_isDir_only)
  qed
  from createFallbackBuild_effects [of e t buildId repo w1]
  obtain evs where f: "files (snd (createFallbackBuild e t buildId repo w1)) =
        (if isDir w1 ?fb then (files w1)(?df \<mapsto> fallbackDockerfile) else files w1)"
    and tr: "trace (snd (createFallbackBuild e t buildId repo w1)) =
               trace w1 @ EvWriteFile ?df fallbackDockerfile # evs"
    and evs: "\<forall>ev \<in> set evs. \<exists>cmd dir. ev = EvExec cmd dir"
    by blast
  have new: "newEvents w (snd (buildImage e t buildId repo w)) =
               EvMkdir ?ws # EvWriteFile ?df fallbackDockerfile # evs"
    by (simp add: newEvents_def red tr w1)
  have writes: "\<forall>p c. EvWriteFile p c \<in> set (newEvents w (snd (buildImage e t buildId repo w)))
             \<longrightarrow> p = ?df \<and> c = fallbackDockerfile"
    unfolding new using evs by auto
  have frame: "\<forall>p. p \<noteq> ?df \<longrightarrow> files (snd (buildImage e t buildId repo w)) p = files w p"
    by (simp add: red f w1)
  from ok red alone writes frame show ?thesis
    unfolding w1_def by simp
qed

theorem validation_failure_redirects_witness:
  "\<not> isValid (validateDockerfile (scenario (Resolved [] []) (Resolved [] []) (Resolved [] [])) invalidText)
   \<and> fst (fs_mkdir (path_join (buildDirectory (scenario (Resolved [] []) (Resolved [] []) (Resolved [] [])))
                       (uuidv4 (scenario (Resolved [] []) (Resolved [] []) (Resolved [] []))))
             freshWorld) = Inr ()
   \<and> \<not> prefix (path_join (buildDirectory (scenario (Resolved [] []) (Resolved [] []) (Resolved [] []))) ''job1'')
               (path_join (buildDirectory (scenario (Resolved [] []) (Resolved [] []) (Resolved [] [])))
                  (uuidv4 (scenario (Resolved [] []) (Resolved [] []) (Resolved [] []))))
   \<and> EvWriteFile (jobDir @ [''Dockerfile'']) fallbackDockerfile
        \<in> set (newEvents freshWorld
                 (snd (buildImage (scenario (Resolved [] []) (Resolved [] []) (Resolved [] []))
                         invalidText ''job1'' None freshWorld)))
   \<and> fst (buildImage (scenario (Resolved [] []) (Resolved [] []) (Resolved [] []))
          invalidText ''job1'' None freshWorld)
     = fst (createFallbackBuild (scenario (Resolved [] []) (Resolved [] []) (Resolved [] []))
          invalidText ''job1'' None freshWorld)
   \<and> fst (fs_mkdir (path_join (buildDirectory (scenario (Resolved [] []) (Resolved [] []) (Resolved [] [])))
                       (uuidv4 (scenario (Resolved [] []) (Resolved [] []) (Resolved [] []))))
             blockedWorld) = Inl (mkdirError ENOTDIR exampleWorkspace)
   \<and> buildImage (scenario (Resolved [] []) (Resolved [] []) (Resolved [] []))
          invalidText ''job1'' None blockedWorld
     = (\<lparr>success = False, imageId = None, error = Some (mkdirError ENOTDIR exampleWorkspace)\<rparr>,
        log_event (EvMkdir exampleWorkspace) blockedWorld)"
proof -
  let ?e = "scenario (Resolved [] []) (Resolved [] []) (Resolved [] [])"
  have h: "\<not> isValid (validateDockerfile ?e invalidText)"
    by (simp add: scenario_defs)
  have ws: "path_join (buildDirectory ?e) (uuidv4 ?e) = exampleWorkspace"
    by (simp add: scenario_defs engine_defs world_defs)
  have ok: "fst (fs_mkdir (path_join (buildDirectory ?e) (uuidv4 ?e)) freshWorld) = Inr ()"
    by (simp add: scenario_defs engine_defs world_defs)
  have p: "\<not> prefix (path_join (buildDirectory ?e) ''job1'')
                     (path_join (buildDirectory ?e) (uuidv4 ?e))"
    by (simp add: scenario_defs engine_defs world_defs)
  have ev: "EvWriteFile (jobDir @ [''Dockerfile'']) fallbackDockerfile
        \<in> set (newEvents freshWorld (snd (buildImage ?e invalidText ''job1'' None freshWorld)))"
    by (simp add: engine_defs world_defs scenario_defs Let_def)
  have rej: "fst (fs_mkdir (path_join (buildDirectory ?e) (uuidv4 ?e)) blockedWorld)
               = Inl (mkdirError ENOTDIR exampleWorkspace)"
    unfolding ws by (simp add: fs_mkdir_def blockedWorld_def exampleWorkspace_def)
  from h ok p ev rej
    validation_failure_redirects [OF h, of freshWorld "''job1''" None]
    validation_failure_redirects [OF h, of blockedWorld "''job1''" None]
  show ?thesis
    unfolding ws by blast
qed

text \<open>
  Claim C3 as stated fails: the workspace directory is created before the validation. With
  an empty build id on a disk without the build root, and with a build id equal to the
  uuid drawn, creating the workspace creates the directory the fallback writes into, so the
  pipeline succeeds where the fallback alone fails. And where the workspace cannot be
  created (the build root is a regular file), the pipeline returns that error and runs no
  fallback.
\<close>

theorem fallback_alone_differs_counterexample:
  "\<not> isValid (validateDockerfile (scenario (Resolved [] []) (Resolved [] []) (Resolved ''4f1c2a9d0b7e\<newline>'' []))
                 invalidText)
   \<and> fst (buildImage (scenario (Resolved [] []) (Resolved [] []) (Resolved ''4f1c2a9d0b7e\<newline>'' []))
          invalidText [] None rootlessWorld)
     = \<lparr>success = True, imageId = Some ''dockgen-ai-:latest'', error = None\<rparr>
   \<and> fst (createFallbackBuild (scenario (Resolved [] []) (Resolved [] []) (Resolved ''4f1c2a9d0b7e\<newline>'' []))
          invalidText [] None rootlessWorld)
     = \<lparr>success = False, imageId = None,
        error = Some (''Both original and fallback builds failed: ENOENT: no such file or directory, open ''
                      @ [CHR 0x27] @ ''/app/temp/Dockerfile'' @ [CHR 0x27])\<rparr>
   \<and> fst (buildImage (scenario (Resolved [] []) (Resolved [] []) (Resolved ''4f1c2a9d0b7e\<newline>'' []))
          invalidText ''1b9d6bcd-bbfd-4b2d-9b5d-ab8dfbbd4bed'' None freshWorld)
     = \<lparr>success = True, imageId = Some ''dockgen-ai-1b9d6bcd-bbfd-4b2d-9b5d-ab8dfbbd4bed:latest'',
        error = None\<rparr>
   \<and> \<not> success (fst (createFallbackBuild
          (scenario (Resolved [] []) (Resolved [] []) (Resolved ''4f1c2a9d0b7e\<newline>'' []))
          invalidText ''1b9d6bcd-bbfd-4b2d-9b5d-ab8dfbbd4bed'' None freshWorld))
   \<and> fst (buildImage (scenario (Resolved [] []) (Resolved [] []) (Resolved ''4f1c2a9d0b7e\<newline>'' []))
          invalidText ''job1'' None blockedWorld)
     = \<lparr>success = False, imageId = None,
        error = Some (''ENOTDIR: not a directory, mkdir '' @ [CHR 0x27]
                      @ ''/app/temp/1b9d6bcd-bbfd-4b2d-9b5d-ab8dfbbd4bed'' @ [CHR 0x27])\<rparr>
   \<and> fst (buildImage (scenario (Resolved [] []) (Resolved [] []) (Resolved ''4f1c2a9d0b7e\<newline>'' []))
          invalidText ''job1'' None blockedWorld)
     \<noteq> fst (createFallbackBuild (scenario (Resolved [] []) (Resolved [] []) (Resolved ''4f1c2a9d0b7e\<newline>'' []))
          invalidText ''job1'' None blockedWorld)"
  by (simp add: engine_defs world_defs scenario_defs Let_def)



text \<open>
  Claim C5 does not hold of the code: \<open>cleanupBuildDir\<close> is called on the success path
  only. After a build that fails on an error-classified stream, after one that times out,
  and after a validation failure, the workspace directory of the invocation is still on
  disk (with the build file written into it, in the first case), and no removal was
  attempted.
\<close>

theorem workspace_left_behind:
  "\<not> success (fst (buildImage (scenario (Resolved [] ''ERROR: no such file'') (Resolved [] []) (Resolved [] []))
                    validText ''job1'' None freshWorld))
   \<and> isDir (snd (buildImage (scenario (Resolved [] ''ERROR: no such file'') (Resolved [] []) (Resolved [] []))
                    validText ''job1'' None freshWorld)) exampleWorkspace
   \<and> files (snd (buildImage (scenario (Resolved [] ''ERROR: no such file'') (Resolved [] []) (Resolved [] []))
                    validText ''job1'' None freshWorld)) (exampleWorkspace @ [''Dockerfile''])
       = Some validText
   \<and> \<not> success (fst (buildImage (scenario (TimedOut []) (Resolved [] []) (Resolved [] []))
                    validText ''job1'' None freshWorld))
   \<and> isDir (snd (buildImage (scenario (TimedOut []) (Resolved [] []) (Resolved [] []))
                    validText ''job1'' None freshWorld)) exampleWorkspace
   \<and> isDir (snd (buildImage (scenario (Resolved [] []) (Resolved [] []) (Resolved [] []))
                    invalidText ''job1'' None freshWorld)) exampleWorkspace
   \<and> EvRm exampleWorkspace \<notin> set (trace (snd (buildImage (scenario (Resolved [] []) (Resolved [] []) (Resolved [] []))
                    invalidText ''job1'' None freshWorld)))"
  by (simp add: engine_defs world_defs scenario_defs Let_def)

text \<open>
  Claim C6. When the build command (run in the created workspace on the primary path, in
  the existing directory of the build id on the fallback path) resolves without a critical
  error and the query of the image store resolves with an output that trims to the empty
  string, the result is a failure, on the primary path and on the fallback path; the query
  is the last call made.
\<close>

theorem image_verification:
  "(isValid (validateDockerfile e t)
      \<and> fst (fs_mkdir (path_join (buildDirectory e) (uuidv4 e)) w) = Inr ()
      \<and> execAsync e (buildCommand (imageName buildId))
            (Some (path_join (buildDirectory e) (uuidv4 e))) = Resolved out err
      \<and> \<not> isCriticalError err
      \<and> execAsync e (imagesCommand (imageName buildId)) None = Resolved iout ierr
      \<and> trim iout = []
    \<longrightarrow> fst (buildImage e t buildId repo w) =
          \<lparr>success = False, imageId = None,
           error = Some ''Docker image was not created successfully''\<rparr>
        \<and> last (trace (snd (buildImage e t buildId repo w))) =
            EvExec (imagesCommand (imageName buildId)) None)
   \<and> (isDir w (path_join (buildDirectory e) buildId)
      \<and> execAsync e (buildCommand (imageName buildId))
            (Some (path_join (buildDirectory e) buildId)) = Resolved out' err'
      \<and> execAsync e (imagesCommand (imageName buildId)) None = Resolved iout ierr
      \<and> trim iout = []
    \<longrightarrow> fst (createFallbackBuild e t buildId repo w) =
          \<lparr>success = False, imageId = None,
           error = Some ''Both original and fallback builds failed: Fallback Docker image was not created successfully''\<rparr>
        \<and> last (trace (snd (createFallbackBuild e t buildId repo w))) =
            EvExec (imagesCommand (imageName buildId)) None)"
proof (intro conjI impI)
  assume a: "isValid (validateDockerfile e t)
      \<and> fst (fs_mkdir (path_join (buildDirectory e) (uuidv4 e)) w) = Inr ()
      \<and> execAsync e (buildCommand (imageName buildId))
            (Some (path_join (buildDirectory e) (uuidv4 e))) = Resolved out err
      \<and> \<not> isCriticalError err
      \<and> execAsync e (imagesCommand (imageName buildId)) None = Resolved iout ierr
      \<and> trim iout = []"
  then have rb: "runBuild e (path_join (buildDirectory e) (uuidv4 e)) buildId
            (snd (materialize e (path_join (buildDirectory e) (uuidv4 e)) t repo
               (snd (fs_mkdir (path_join (buildDirectory e) (uuidv4 e)) w)))) =
           (Inl ''Docker image was not created successfully'',
            log_event (EvExec (imagesCommand (imageName buildId)) None)
              (log_event (EvExec (buildCommand (imageName buildId))
                 (Some (path_join (buildDirectory e) (uuidv4 e))))
                 (snd (materialize e (path_join (buildDirectory e) (uuidv4 e)) t repo
               (snd (fs_mkdir (path_join (buildDirectory e) (uuidv4 e)) w))))))"
    by (intro runBuild_unverified) auto
  from a have v: "isValid (validateDockerfile e t)" by simp
  from a have mk: "fst (fs_mkdir (path_join (buildDirectory e) (uuidv4 e)) w) = Inr ()" by simp
  show "fst (buildImage e t buildId repo w) =
          \<lparr>success = False, imageId = None,
           error = Some ''Docker image was not created successfully''\<rparr>"
    by (simp add: buildImage_valid [OF v mk] rb)
  show "last (trace (snd (buildImage e t buildId repo w))) =
            EvExec (imagesCommand (imageName buildId)) None"
    by (simp add: buildImage_valid [OF v mk] rb log_event_def)
next
  assume b: "isDir w (path_join (buildDirectory e) buildId)
      \<and> execAsync e (buildCommand (imageName buildId))
            (Some (path_join (buildDirectory e) buildId)) = Resolved out' err'
      \<and> execAsync e (imagesCommand (imageName buildId)) None = Resolved iout ierr
      \<and> trim iout = []"
  then have c: "fst (createFallbackBuild e t buildId repo w) =
           \<lparr>success = False, imageId = None,
            error = Some ''Both original and fallback builds failed: Fallback Docker image was not created successfully''\<rparr>
       \<and> last (trace (snd (createFallbackBuild e t buildId repo w))) =
           EvExec (imagesCommand (imageName buildId)) None"
    by (intro createFallbackBuild_unverified) auto
  from c show "fst (createFallbackBuild e t buildId repo w) =
          \<lparr>success = False, imageId = None,
           error = Some ''Both original and fallback builds failed: Fallback Docker image was not created successfully''\<rparr>"
    by simp
  from c show "last (trace (snd (createFallbackBuild e t buildId repo w))) =
            EvExec (imagesCommand (imageName buildId)) None"
    by simp
qed

theorem image_verification_witness:
  "isValid (validateDockerfile (scenario (Resolved [] []) (Resolved [] []) (Resolved ''\<newline>'' [])) validText)
   \<and> fst (fs_mkdir (path_join (buildDirectory (scenario (Resolved [] []) (Resolved [] []) (Resolved ''\<newline>'' [])))
                       (uuidv4 (scenario (Resolved [] []) (Resolved [] []) (Resolved ''\<newline>'' []))))
             preparedWorld) = Inr ()
   \<and> \<not> isCriticalError []
   \<and> trim ''\<newline>'' = []
   \<and> isDir preparedWorld
        (path_join (buildDirectory (scenario (Resolved [] []) (Resolved [] []) (Resolved ''\<newline>'' []))) ''job1'')
   \<and> fst (buildImage (scenario (Resolved [] []) (Resolved [] []) (Resolved ''\<newline>'' []))
          validText ''job1'' None preparedWorld)
     = \<lparr>success = False, imageId = None,
        error = Some ''Docker image was not created successfully''\<rparr>
   \<and> fst (createFallbackBuild (scenario (Resolved [] []) (Resolved [] []) (Resolved ''\<newline>'' []))
          validText ''job1'' None preparedWorld)
     = \<lparr>success = False, imageId = None,
        error = Some ''Both original and fallback builds failed: Fallback Docker image was not created successfully''\<rparr>"
proof -
  let ?e = "scenario (Resolved [] []) (Resolved [] []) (Resolved ''\<newline>'' [])"
  have h1: "isValid (validateDockerfile ?e validText)"
    by (simp add: scenario_defs)
  have h2: "execAsync ?e (buildCommand (imageName ''job1''))
              (Some (path_join (buildDirectory ?e) (uuidv4 ?e))) = Resolved [] []"
    by (simp add: scenario_defs engine_defs world_defs)
  have h3: "\<not> isCriticalError []"
    by (simp add: isCriticalError_def)
  have h4: "execAsync ?e (imagesCommand (imageName ''job1'')) None = Resolved ''\<newline>'' []"
    by (simp add: scenario_defs)
  have h5: "trim ''\<newline>'' = []"
    by (simp add: trim_def js_whitespace_def)
  have h6: "isDir preparedWorld (path_join (buildDirectory ?e) ''job1'')"
    by (simp add: scenario_defs engine_defs world_defs)
  have h7: "execAsync ?e (buildCommand (imageName ''job1''))
              (Some (path_join (buildDirectory ?e) ''job1'')) = Resolved [] []"
    by (simp add: scenario_defs engine_defs world_defs)
  have h8: "fst (fs_mkdir (path_join (buildDirectory ?e) (uuidv4 ?e)) preparedWorld) = Inr ()"
    by (simp add: scenario_defs engine_defs world_defs)
  from h1 h2 h3 h4 h5 h6 h7 h8
    image_verification [where e = ?e and t = validText and buildId = "''job1''" and out = "[]"
      and err = "[]" and iout = "''\<newline>''" and ierr = "[]" and repo = None
      and w = preparedWorld and out' = "[]" and err' = "[]"]
  show ?thesis
    by blast
qed

text \<open>
  Claim C7 does not hold of the code: the fallback writes its build file into the
  directory named by the build id, which it never creates. On a fresh disk the fallback
  therefore fails with \<^verbatim>\<open>ENOENT\<close>; and where that directory exists, the build command
  is run in it with no manifest, exclusion manifest or placeholder source materialised.
\<close>

theorem fallback_workspace_not_created:
  "fst (buildImage (scenario (Resolved [] []) (Resolved [] []) (Resolved ''4f1c2a9d0b7e\<newline>'' []))
          invalidText ''job1'' None freshWorld)
     = \<lparr>success = False, imageId = None,
        error = Some (''Both original and fallback builds failed: ENOENT: no such file or directory, open ''
                      @ [CHR 0x27] @ ''/app/temp/job1/Dockerfile'' @ [CHR 0x27])\<rparr>
   \<and> newEvents freshWorld
        (snd (buildImage (scenario (Resolved [] []) (Resolved [] []) (Resolved ''4f1c2a9d0b7e\<newline>'' []))
                invalidText ''job1'' None freshWorld))
     = [EvMkdir exampleWorkspace, EvWriteFile [''app'', ''temp'', ''job1'', ''Dockerfile''] fallbackDockerfile]
   \<and> \<not> isDir (snd (buildImage (scenario (Resolved [] []) (Resolved [] []) (Resolved ''4f1c2a9d0b7e\<newline>'' []))
                invalidText ''job1'' None freshWorld)) jobDir
   \<and> newEvents (freshWorld\<lparr>dirs := insert jobDir (dirs freshWorld)\<rparr>)
        (snd (buildImage (scenario (Resolved [] []) (Resolved [] []) (Resolved ''4f1c2a9d0b7e\<newline>'' []))
                invalidText ''job1'' None (freshWorld\<lparr>dirs := insert jobDir (dirs freshWorld)\<rparr>)))
     = [EvMkdir exampleWorkspace,
        EvWriteFile [''app'', ''temp'', ''job1'', ''Dockerfile''] fallbackDockerfile,
        EvExec ''docker build --no-cache --progress=plain -t dockgen-ai-job1:latest .'' (Some jobDir),
        EvExec (imagesCommand ''dockgen-ai-job1:latest'') None]
   \<and> files (snd (buildImage (scenario (Resolved [] []) (Resolved [] []) (Resolved ''4f1c2a9d0b7e\<newline>'' []))
                invalidText ''job1'' None (freshWorld\<lparr>dirs := insert jobDir (dirs freshWorld)\<rparr>)))
         (jobDir @ [''package.json'']) = None"
  by (simp add: engine_defs world_defs scenario_defs Let_def)

text \<open>
  Claim C8, as amended. When validation fails, the workspace directory is created and the
  fallback build fails with message \<open>m\<close>, the result is a failure whose message is
  \<^verbatim>\<open>Both original and fallback builds failed: \<close> followed by \<open>m\<close>; the validation
  errors are not part of it: the run is the same for every rejecting verdict.
\<close>

theorem fallback_failure_message:
  assumes "\<not> isValid (validateDockerfile e t)"
    and "fst (fs_mkdir (path_join (buildDirectory e) (uuidv4 e)) w) = Inr ()"
    and "fst (createFallbackBuild_try e buildId
                (snd (fs_mkdir (path_join (buildDirectory e) (uuidv4 e)) w))) = Inl m"
  shows "fst (buildImage e t buildId repo w) =
           \<lparr>success = False, imageId = None,
            error = Some (''Both original and fallback builds failed: '' @ m)\<rparr>
       \<and> (\<forall>v. \<not> isValid (v t) \<longrightarrow>
             buildImage (e\<lparr>validateDockerfile := v\<rparr>) t buildId repo w =
             buildImage e t buildId repo w)"
proof -
  have msg: "fst (buildImage e t buildId repo w) =
           \<lparr>success = False, imageId = None,
            error = Some (''Both original and fallback builds failed: '' @ m)\<rparr>"
    using assms(3)
    by (auto simp: buildImage_invalid [OF assms(1) assms(2)] createFallbackBuild_def
          split: prod.splits sum.splits)
  have indep: "buildImage (e\<lparr>validateDockerfile := v\<rparr>) t buildId repo w =
               buildImage e t buildId repo w" if "\<not> isValid (v t)" for v
  proof -
    from that have inv: "\<not> isValid (validateDockerfile (e\<lparr>validateDockerfile := v\<rparr>) t)"
      by simp
    from assms(2)
    have mk: "fst (fs_mkdir (path_join (buildDirectory (e\<lparr>validateDockerfile := v\<rparr>))
                               (uuidv4 (e\<lparr>validateDockerfile := v\<rparr>))) w) = Inr ()"
      by (simp add: buildDirectory_def)
    from buildImage_invalid [OF inv mk] show ?thesis
      by (simp add: buildImage_invalid [OF assms(1) assms(2)]
            createFallbackBuild_validator_irrelevant buildDirectory_def)
  qed
  from msg indep show ?thesis by blast
qed

theorem fallback_failure_message_witness:
  "\<not> isValid (validateDockerfile (scenario (Resolved [] []) (Resolved [] []) (Resolved [] [])) invalidText)
   \<and> fst (fs_mkdir (path_join (buildDirectory (scenario (Resolved [] []) (Resolved [] []) (Resolved [] [])))
                       (uuidv4 (scenario (Resolved [] []) (Resolved [] []) (Resolved [] []))))
             freshWorld) = Inr ()
   \<and> fst (createFallbackBuild_try (scenario (Resolved [] []) (Resolved [] []) (Resolved [] [])) ''job1''
           (snd (fs_mkdir (path_join (buildDirectory (scenario (Resolved [] []) (Resolved [] []) (Resolved [] [])))
                             (uuidv4 (scenario (Resolved [] []) (Resolved [] []) (Resolved [] []))))
                   freshWorld)))
      = Inl (enoent [''app'', ''temp'', ''job1'', ''Dockerfile''])
   \<and> fst (buildImage (scenario (Resolved [] []) (Resolved [] []) (Resolved [] []))
          invalidText ''job1'' None freshWorld)
      = \<lparr>success = False, imageId = None,
         error = Some (''Both original and fallback builds failed: ''
                       @ enoent [''app'', ''temp'', ''job1'', ''Dockerfile''])\<rparr>"
proof -
  let ?e = "scenario (Resolved [] []) (Resolved [] []) (Resolved [] [])"
  have h1: "\<not> isValid (validateDockerfile ?e invalidText)"
    by (simp add: scenario_defs)
  have h2: "fst (createFallbackBuild_try ?e ''job1''
           (snd (fs_mkdir (path_join (buildDirectory ?e) (uuidv4 ?e)) freshWorld)))
      = Inl (enoent [''app'', ''temp'', ''job1'', ''Dockerfile''])"
    by (simp add: engine_defs scenario_defs Let_def bind_def ret_def throw_def log_event_def
          isDir_def fs_mkdir_def fs_writeFile_def path_join_def path_step_def)
  have h3: "fst (fs_mkdir (path_join (buildDirectory ?e) (uuidv4 ?e)) freshWorld) = Inr ()"
    by (simp add: scenario_defs engine_defs world_defs)
  from h1 h2 h3 fallback_failure_message [OF h1 h3 h2, of None] show ?thesis
    by blast
qed

text \<open>
  Claim C8 as stated fails: after a validation failure and a failed fallback, the message
  does not contain the validation error; and after a failed primary build, on a disk where
  the fallback would fail too, the message is that of the primary failure alone.
\<close>

theorem failure_message_counterexample:
  "fst (buildImage (scenario (Resolved [] []) (Resolved [] []) (Resolved [] []))
          invalidText ''job1'' None freshWorld)
     = \<lparr>success = False, imageId = None,
        error = Some (''Both original and fallback builds failed: ENOENT: no such file or directory, open ''
                      @ [CHR 0x27] @ ''/app/temp/job1/Dockerfile'' @ [CHR 0x27])\<rparr>
   \<and> errors (validateDockerfile (scenario (Resolved [] []) (Resolved [] []) (Resolved [] [])) invalidText)
     = [''Missing FROM instruction'']
   \<and> \<not> js_includes (''Both original and fallback builds failed: ENOENT: no such file or directory, open ''
                      @ [CHR 0x27] @ ''/app/temp/job1/Dockerfile'' @ [CHR 0x27])
          ''Missing FROM instruction''
   \<and> fst (buildImage (scenario (Resolved [] ''ERROR: no such file'') (Resolved [] []) (Resolved [] []))
          validText ''job1'' None freshWorld)
     = \<lparr>success = False, imageId = None, error = Some ''Docker build failed: ERROR: no such file''\<rparr>
   \<and> \<not> success (fst (createFallbackBuild (scenario (Resolved [] ''ERROR: no such file'') (Resolved [] []) (Resolved [] []))
          validText ''job1'' None
          (snd (buildImage (scenario (Resolved [] ''ERROR: no such file'') (Resolved [] []) (Resolved [] []))
                  validText ''job1'' None freshWorld))))
   \<and> \<not> js_includes ''Docker build failed: ERROR: no such file'' ''ENOENT''"
  by (simp add: engine_defs world_defs scenario_defs Let_def)

text \<open>
  Claim C9. A truthy manifest of the repository data is returned as it is by
  \<open>createPackageJson\<close> and is what gets serialised into \<^verbatim>\<open>package.json\<close> when that file
  is absent; a present file is left alone; and materialising a second time (whatever the
  build file and repository data of the second run) leaves the content of the file
  unchanged.
\<close>

theorem manifest_idempotent:
  "(truthy pj \<longrightarrow> createPackageJson (Some \<lparr>packageJson = Some pj\<rparr>) = pj)
   \<and> (isDir w ws \<and> \<not> fileExists (path_join ws ''package.json'') w \<and> truthy pj \<longrightarrow>
        files (snd (materialize e ws t (Some \<lparr>packageJson = Some pj\<rparr>) w))
          (path_join ws ''package.json'') = Some (stringify e pj))
   \<and> (fileExists (path_join ws ''package.json'') w \<longrightarrow>
        files (snd (materialize e ws t repo w)) (path_join ws ''package.json'')
          = files w (path_join ws ''package.json''))
   \<and> files (snd (materialize e ws t' repo' (snd (materialize e ws t repo w))))
          (path_join ws ''package.json'')
        = files (snd (materialize e ws t repo w)) (path_join ws ''package.json'')"
proof (intro conjI impI)
  assume "truthy pj"
  then show "createPackageJson (Some \<lparr>packageJson = Some pj\<rparr>) = pj"
    by (simp add: createPackageJson_def)
next
  assume "isDir w ws \<and> \<not> fileExists (path_join ws ''package.json'') w \<and> truthy pj"
  then show "files (snd (materialize e ws t (Some \<lparr>packageJson = Some pj\<rparr>) w))
          (path_join ws ''package.json'') = Some (stringify e pj)"
    by (simp add: materialize_package_json createPackageJson_def)
next
  assume "fileExists (path_join ws ''package.json'') w"
  then show "files (snd (materialize e ws t repo w)) (path_join ws ''package.json'')
          = files w (path_join ws ''package.json'')"
    by (simp add: materialize_package_json)
next
  show "files (snd (materialize e ws t' repo' (snd (materialize e ws t repo w))))
          (path_join ws ''package.json'')
        = files (snd (materialize e ws t repo w)) (path_join ws ''package.json'')"
  proof (cases "isDir w ws")
    case True
    then have "fileExists (path_join ws ''package.json'') (snd (materialize e ws t repo w))"
      by (rule materialize_package_json_exists)
    then show ?thesis
      by (simp add: materialize_package_json [of e ws t' repo'])
  next
    case False
    then have "\<not> isDir (snd (materialize e ws t repo w)) ws"
      by (simp add: materialize_isDir)
    then show ?thesis
      by (simp add: materialize_package_json [of e ws t' repo'])
  qed
qed

theorem manifest_idempotent_witness:
  \<open>truthy examplePackageJson
   \<and> isDir (freshWorld\<lparr>dirs := insert exampleWorkspace (dirs freshWorld)\<rparr>) exampleWorkspace
   \<and> \<not> fileExists (path_join exampleWorkspace ''package.json'')
          (freshWorld\<lparr>dirs := insert exampleWorkspace (dirs freshWorld)\<rparr>)
   \<and> files (snd (materialize (scenario (Resolved [] []) (Resolved [] []) (Resolved [] []))
                   exampleWorkspace validText (Some \<lparr>packageJson = Some examplePackageJson\<rparr>)
                   (freshWorld\<lparr>dirs := insert exampleWorkspace (dirs freshWorld)\<rparr>)))
        (path_join exampleWorkspace ''package.json'')
      = Some ''{\<newline>  "name": "demo"\<newline>}''
   \<and> files (snd (materialize (scenario (Resolved [] []) (Resolved [] []) (Resolved [] []))
                   exampleWorkspace validText None
            (snd (materialize (scenario (Resolved [] []) (Resolved [] []) (Resolved [] []))
                   exampleWorkspace validText (Some \<lparr>packageJson = Some examplePackageJson\<rparr>)
                   (freshWorld\<lparr>dirs := insert exampleWorkspace (dirs freshWorld)\<rparr>)))))
        (path_join exampleWorkspace ''package.json'')
      = Some ''{\<newline>  "name": "demo"\<newline>}''\<close>
proof -
  let ?e = "scenario (Resolved [] []) (Resolved [] []) (Resolved [] [])"
  let ?w = "freshWorld\<lparr>dirs := insert exampleWorkspace (dirs freshWorld)\<rparr>"
  have h1: "truthy examplePackageJson"
    by (simp add: examplePackageJson_def)
  have h2: "isDir ?w exampleWorkspace"
    by (simp add: isDir_def)
  have h3: "\<not> fileExists (path_join exampleWorkspace ''package.json'') ?w"
    by (simp add: fileExists_def isDir_def freshWorld_def exampleWorkspace_def path_join_names)
  have s: \<open>stringify ?e examplePackageJson = ''{\<newline>  "name": "demo"\<newline>}''\<close>
    by (simp add: scenario_def exampleStringify_def)
  from h1 h2 h3 s
    manifest_idempotent [where pj = examplePackageJson and w = ?w and ws = exampleWorkspace
      and e = ?e and t = validText and t' = validText and repo' = None
      and repo = "Some \<lparr>packageJson = Some examplePackageJson\<rparr>"]
  show ?thesis
    by simp
qed

text \<open>
  Claim C10. The fallback build leaves the set of directories unchanged, changes no file
  other than \<^verbatim>\<open>Dockerfile\<close> in the directory named by the build id (which receives the
  fixed fallback build file when that directory exists), makes no call other than that
  write and commands, and fails when the directory does not exist.
\<close>

theorem fallback_frame:
  "dirs (snd (createFallbackBuild e t buildId repo w)) = dirs w
   \<and> files (snd (createFallbackBuild e t buildId repo w)) =
       (if isDir w (path_join (buildDirectory e) buildId)
        then (files w)(path_join (path_join (buildDirectory e) buildId) ''Dockerfile''
                        \<mapsto> fallbackDockerfile)
        else files w)
   \<and> (\<forall>ev \<in> set (newEvents w (snd (createFallbackBuild e t buildId repo w))).
         ev = EvWriteFile (path_join (path_join (buildDirectory e) buildId) ''Dockerfile'')
                fallbackDockerfile
         \<or> (\<exists>cmd dir. ev = EvExec cmd dir))
   \<and> (\<not> isDir w (path_join (buildDirectory e) buildId) \<longrightarrow>
         fst (createFallbackBuild e t buildId repo w) =
           \<lparr>success = False, imageId = None,
            error = Some (''Both original and fallback builds failed: '' @
              enoent (path_join (path_join (buildDirectory e) buildId) ''Dockerfile''))\<rparr>)"
proof -
  let ?df = "path_join (path_join (buildDirectory e) buildId) ''Dockerfile''"
  let ?w' = "snd (createFallbackBuild e t buildId repo w)"
  from createFallbackBuild_effects [of e t buildId repo w]
  obtain evs where d: "dirs ?w' = dirs w"
    and f: "files ?w' = (if isDir w (path_join (buildDirectory e) buildId)
                         then (files w)(?df \<mapsto> fallbackDockerfile) else files w)"
    and tr: "trace ?w' = trace w @ EvWriteFile ?df fallbackDockerfile # evs"
    and evs: "\<forall>ev \<in> set evs. \<exists>cmd dir. ev = EvExec cmd dir"
    by blast
  have new: "newEvents w ?w' = EvWriteFile ?df fallbackDockerfile # evs"
    by (simp add: newEvents_def tr)
  have only: "\<forall>ev \<in> set (newEvents w ?w').
         ev = EvWriteFile ?df fallbackDockerfile \<or> (\<exists>cmd dir. ev = EvExec cmd dir)"
    unfolding new using evs by auto
  from d f only createFallbackBuild_missing_dir [of w e buildId t repo] show ?thesis
    by blast
qed

theorem fallback_frame_witness:
  "\<not> isDir freshWorld
        (path_join (buildDirectory (scenario (Resolved [] []) (Resolved [] []) (Resolved [] []))) ''job1'')
   \<and> EvWriteFile [''app'', ''temp'', ''job1'', ''Dockerfile''] fallbackDockerfile
        \<in> set (newEvents freshWorld
                 (snd (createFallbackBuild (scenario (Resolved [] []) (Resolved [] []) (Resolved [] []))
                         invalidText ''job1'' None freshWorld)))
   \<and> \<not> success (fst (createFallbackBuild (scenario (Resolved [] []) (Resolved [] []) (Resolved [] []))
                        invalidText ''job1'' None freshWorld))
   \<and> dirs (snd (createFallbackBuild (scenario (Resolved [] []) (Resolved [] []) (Resolved [] []))
                  invalidText ''job1'' None freshWorld)) = dirs freshWorld
   \<and> files (snd (createFallbackBuild (scenario (Resolved [] []) (Resolved [] []) (Resolved [] []))
                  invalidText ''job1'' None freshWorld)) = files freshWorld"
proof -
  let ?e = "scenario (Resolved [] []) (Resolved [] []) (Resolved [] [])"
  have h: "\<not> isDir freshWorld (path_join (buildDirectory ?e) ''job1'')"
    by (simp add: scenario_defs engine_defs world_defs)
  have ev: "EvWriteFile [''app'', ''temp'', ''job1'', ''Dockerfile''] fallbackDockerfile
        \<in> set (newEvents freshWorld (snd (createFallbackBuild ?e invalidText ''job1'' None freshWorld)))"
    by (simp add: engine_defs world_defs scenario_defs Let_def)
  from h ev fallback_frame [of ?e invalidText "''job1''" None freshWorld] show ?thesis
    by simp
qed

end
